theory Spec2Isabelle
  imports Main
begin

section \<open>Python values, objects and errors\<close>

text \<open>
  The values the client handles: what \<^verbatim>\<open>json.loads\<close> produces (null, booleans,
  integers, strings, lists, objects) and references to the instances the module
  creates. A \<open>PDict\<close> lists its items in iteration order; a key is looked up with
  \<open>map_of\<close>. Floating-point numbers are left out of the model.
\<close>

datatype pyval =
    PNone
  | PBool bool
  | PInt int
  | PStr string
  | PList "pyval list"
  | PDict "(string \<times> pyval) list"
  | PRef nat

text \<open>
  Exceptions. \<open>Exception args\<close> is the generic \<^verbatim>\<open>Exception(*args)\<close> the module raises
  itself, \<open>ConnectionError\<close> the module's own subclass of \<^verbatim>\<open>IOError\<close> with its message;
  \<open>StackError\<close> stands for an exception raised inside the HTTP library (no connection,
  timeout, ...), which the module never catches.
\<close>

datatype error =
    Exception "pyval list"
  | ConnectionError string
  | StackError string
  | TypeError
  | AttributeError
  | IndexError
  | KeyError
  | ValueError
  | NameError string
  | IOError

text \<open>
  Instances live in a heap and are named by their index. A \<^verbatim>\<open>Dropcam\<close> instance has the
  attributes \<^verbatim>\<open>_Dropcam__username\<close>, \<^verbatim>\<open>_Dropcam__password\<close> and \<^verbatim>\<open>cookie\<close>; a \<^verbatim>\<open>Camera\<close>
  instance is its \<^verbatim>\<open>__dict__\<close>, restricted to the string keys (the only ones attribute
  access can reach).
\<close>

datatype obj =
    DropcamObj pyval pyval pyval
  | CameraObj "string \<rightharpoonup> pyval"

section \<open>The HTTP library, the file system and the world\<close>

text \<open>The \<^verbatim>\<open>headers\<close> dictionary built by \<^verbatim>\<open>request\<close>, one field per key.\<close>

record req_headers =
  Cookie :: pyval
  Referer :: string
  Content_Type :: string
  Content_Length :: nat

text \<open>
  One call of \<^verbatim>\<open>requests.get\<close> or \<^verbatim>\<open>requests.post\<close>: the function called (\<open>verb\<close>), the
  url, and the keyword arguments. \<^verbatim>\<open>request\<close> passes \<^verbatim>\<open>params=\<close> and \<^verbatim>\<open>headers=\<close> only, so
  the body argument \<^verbatim>\<open>data=\<close> keeps its default \<^verbatim>\<open>None\<close>.
\<close>

record http_call =
  verb :: string
  url :: string
  params :: "(string \<times> pyval) list"
  data :: "(string \<times> pyval) list option"
  hdrs :: req_headers

text \<open>
  The response object of the library: status code, reason phrase, the header
  dictionary (case-insensitive in the library; keyed here by the lower-case name)
  and the body.
\<close>

record response =
  status_code :: int
  reason :: string
  headers :: "string \<rightharpoonup> string"
  content :: string

text \<open>
  \<^verbatim>\<open>Response.ok\<close> of the library: true unless \<^verbatim>\<open>raise_for_status()\<close> would raise, that
  is unless the status code is a client error (400..499) or a server error (500..599).
\<close>

definition ok :: "response \<Rightarrow> bool" where
  "ok r = (\<not> (400 \<le> status_code r \<and> status_code r < 600))"

text \<open>
  What the program does not define itself is a parameter: the HTTP stack (which
  answers a call with a response or raises), \<^verbatim>\<open>json.loads\<close>, \<^verbatim>\<open>str()\<close> of a value,
  \<^verbatim>\<open>int()\<close> of a string, the clock reading \<^verbatim>\<open>int(time.time())\<close>, and whether \<^verbatim>\<open>open(path, "wb")\<close>
  succeeds.
\<close>

record env =
  http :: "http_call \<Rightarrow> error + response"
  json_loads :: "string \<Rightarrow> error + pyval"
  py_str :: "pyval \<Rightarrow> string"
  py_int :: "string \<Rightarrow> error + int"
  clock :: int
  can_open :: "string \<Rightarrow> bool"

text \<open>
  The mutable world: the heap of instances, the calls handed to the HTTP library so
  far (oldest first), and the contents of the files.
\<close>

record world =
  heap :: "obj list"
  calls :: "http_call list"
  files :: "string \<rightharpoonup> string"

section \<open>Built-in operations on values\<close>

text \<open>Truth value of an object, as \<^verbatim>\<open>if x:\<close> tests it.\<close>

fun truthy :: "pyval \<Rightarrow> bool" where
  "truthy PNone = False"
| "truthy (PBool b) = b"
| "truthy (PInt n) = (n \<noteq> 0)"
| "truthy (PStr s) = (s \<noteq> [])"
| "truthy (PList xs) = (xs \<noteq> [])"
| "truthy (PDict kvs) = (kvs \<noteq> [])"
| "truthy (PRef a) = True"

text \<open>\<^verbatim>\<open>x != 0\<close>: a boolean compares as the integer 0 or 1.\<close>

fun ne_zero :: "pyval \<Rightarrow> bool" where
  "ne_zero (PInt n) = (n \<noteq> 0)"
| "ne_zero (PBool b) = b"
| "ne_zero v = True"

text \<open>\<^verbatim>\<open>x.get(key)\<close>: only a dictionary has the method; a missing key gives \<^verbatim>\<open>None\<close>.\<close>

fun py_get :: "pyval \<Rightarrow> string \<Rightarrow> error + pyval" where
  "py_get (PDict kvs) k = (case map_of kvs k of None \<Rightarrow> Inr PNone | Some v \<Rightarrow> Inr v)"
| "py_get v k = Inl AttributeError"

text \<open>\<^verbatim>\<open>x[0]\<close>.\<close>

fun py_index0 :: "pyval \<Rightarrow> error + pyval" where
  "py_index0 (PList []) = Inl IndexError"
| "py_index0 (PList (x # xs)) = Inr x"
| "py_index0 (PStr []) = Inl IndexError"
| "py_index0 (PStr (c # cs)) = Inr (PStr [c])"
| "py_index0 (PDict kvs) = Inl KeyError"
| "py_index0 v = Inl TypeError"

text \<open>\<^verbatim>\<open>for x in v\<close>: the elements iteration yields, or \<^verbatim>\<open>TypeError\<close>.\<close>

fun py_iter :: "pyval \<Rightarrow> error + pyval list" where
  "py_iter (PList xs) = Inr xs"
| "py_iter (PStr s) = Inr (map (\<lambda>c. PStr [c]) s)"
| "py_iter (PDict kvs) = Inr (map (\<lambda>kv. PStr (fst kv)) kvs)"
| "py_iter v = Inl TypeError"

text \<open>\<^verbatim>\<open>sep.join(xs)\<close> on strings.\<close>

fun py_join :: "string \<Rightarrow> string list \<Rightarrow> string" where
  "py_join sep [] = []"
| "py_join sep [x] = x"
| "py_join sep (x # y # ys) = x @ sep @ py_join sep (y # ys)"

text \<open>\<^verbatim>\<open>int(v)\<close>: an integer is itself, a boolean 0 or 1, a string is parsed.\<close>

fun int_of :: "env \<Rightarrow> pyval \<Rightarrow> error + int" where
  "int_of E (PInt n) = Inr n"
| "int_of E (PBool b) = Inr (if b then 1 else 0)"
| "int_of E (PStr s) = py_int E s"
| "int_of E v = Inl TypeError"

text \<open>Decimal digits of a natural number and of an integer, as \<^verbatim>\<open>str\<close> prints them.\<close>

fun nat_digits :: "nat \<Rightarrow> string" where
  "nat_digits n =
     (if n < 10 then [''0123456789'' ! n]
      else nat_digits (n div 10) @ [''0123456789'' ! (n mod 10)])"

definition int_digits :: "int \<Rightarrow> string" where
  "int_digits i = (if i < 0 then CHR ''-'' # nat_digits (nat (- i)) else nat_digits (nat i))"

text \<open>
  \<^verbatim>\<open>"%s" % v\<close>: a string is inserted as it is, \<^verbatim>\<open>None\<close>, booleans and integers by their
  names and digits, anything else by \<^verbatim>\<open>str()\<close>.
\<close>

fun percent_s :: "env \<Rightarrow> pyval \<Rightarrow> string" where
  "percent_s E (PStr s) = s"
| "percent_s E PNone = ''None''"
| "percent_s E (PBool b) = (if b then ''True'' else ''False'')"
| "percent_s E (PInt i) = int_digits i"
| "percent_s E v = py_str E v"

text \<open>
  Attribute access \<^verbatim>\<open>v.name\<close> for the instance attributes the module reads: \<^verbatim>\<open>uuid\<close>,
  \<^verbatim>\<open>dropcam\<close>, \<^verbatim>\<open>cookie\<close> and the two private attributes of \<^verbatim>\<open>Dropcam\<close> (none of them is
  a class attribute). JSON values have none of them.
\<close>

definition py_getattr :: "obj list \<Rightarrow> pyval \<Rightarrow> string \<Rightarrow> error + pyval" where
  "py_getattr h v name =
     (case v of
        PRef a \<Rightarrow>
          (if a < length h then
             (case h ! a of
                DropcamObj u p c \<Rightarrow>
                  (if name = ''cookie'' then Inr c
                   else if name = ''_Dropcam__username'' then Inr u
                   else if name = ''_Dropcam__password'' then Inr p
                   else Inl AttributeError)
              | CameraObj d \<Rightarrow>
                  (case d name of None \<Rightarrow> Inl AttributeError | Some x \<Rightarrow> Inr x))
           else Inl AttributeError)
      | _ \<Rightarrow> Inl AttributeError)"

text \<open>
  \<^verbatim>\<open>self.LOGIN_PATH\<close>, \<^verbatim>\<open>self.CAMERAS_GET_VISIBLE\<close>: a class constant of \<^verbatim>\<open>Dropcam\<close> read
  through the receiver of one of its methods; \<open>c\<close> is the constant's value.
\<close>

definition class_attr :: "obj list \<Rightarrow> pyval \<Rightarrow> string \<Rightarrow> error + string" where
  "class_attr h v c =
     (case v of
        PRef a \<Rightarrow>
          (if a < length h then
             (case h ! a of
                DropcamObj u p ck \<Rightarrow> Inr c
              | CameraObj d \<Rightarrow> Inl AttributeError)
           else Inl AttributeError)
      | _ \<Rightarrow> Inl AttributeError)"

text \<open>
  A method call \<^verbatim>\<open>self.name(...)\<close> on a \<^verbatim>\<open>Camera\<close>, where \<open>name\<close> is a method of the
  class: the instance's \<^verbatim>\<open>__dict__\<close> is searched before the class, so a vendor field of
  that name, put there by \<^verbatim>\<open>Camera.__init__\<close>, is what the lookup finds. No value of the
  model is callable, and calling it is a \<^verbatim>\<open>TypeError\<close>. Without such a field the lookup
  finds the method. A \<^verbatim>\<open>Dropcam\<close> instance and a JSON value have no such attribute.
\<close>

definition bound_method :: "obj list \<Rightarrow> pyval \<Rightarrow> string \<Rightarrow> error + unit" where
  "bound_method h v name =
     (case v of
        PRef a \<Rightarrow>
          (if a < length h then
             (case h ! a of
                DropcamObj u p ck \<Rightarrow> Inl AttributeError
              | CameraObj d \<Rightarrow>
                  (case d name of None \<Rightarrow> Inr () | Some x \<Rightarrow> Inl TypeError))
           else Inl AttributeError)
      | _ \<Rightarrow> Inl AttributeError)"

section \<open>The module\<close>

subsection \<open>Class constants of \<^verbatim>\<open>Dropcam\<close>\<close>

definition NEXUS_BASE :: string where "NEXUS_BASE = ''https://nexusapi.dropcam.com''"
definition API_BASE :: string where "API_BASE = ''https://www.dropcam.com''"
definition API_PATH :: string where "API_PATH = ''api''"

definition LOGIN_PATH :: string where
  "LOGIN_PATH = py_join ''/'' [API_BASE, API_PATH, ''login.login'']"
definition CAMERAS_GET_VISIBLE :: string where
  "CAMERAS_GET_VISIBLE = py_join ''/'' [API_BASE, API_PATH, ''cameras.get_visible'']"
definition CAMERAS_GET_IMAGE_PATH :: string where
  "CAMERAS_GET_IMAGE_PATH = py_join ''/'' [NEXUS_BASE, ''get_image'']"
definition EVENT_PATH :: string where
  "EVENT_PATH = py_join ''/'' [NEXUS_BASE, ''get_cuepoint'']"
definition PROPERTIES_PATH :: string where
  "PROPERTIES_PATH = py_join ''/'' [API_BASE, ''app/cameras/properties'']"

subsection \<open>\<^verbatim>\<open>request\<close>\<close>

text \<open>
  \<^verbatim>\<open>request(url, params, cookie=None, method="GET")\<close>: builds the headers, looks the
  method up in the two-entry table (any other method finds \<^verbatim>\<open>None\<close>, and calling it is
  a \<^verbatim>\<open>TypeError\<close>), makes the one call, and raises \<^verbatim>\<open>Exception(resp.reason)\<close> unless the
  response is ok. A caller that leaves \<^verbatim>\<open>cookie\<close> out passes \<open>PNone\<close>.
\<close>

text \<open>The headers dictionary and the arguments of the library call.\<close>

definition build_call :: "env \<Rightarrow> string \<Rightarrow> string \<Rightarrow> (string \<times> pyval) list \<Rightarrow> pyval \<Rightarrow> http_call" where
  "build_call E method u ps cookie =
     \<lparr>verb = method, url = u, params = ps, data = None,
      hdrs = \<lparr>Cookie = cookie, Referer = API_BASE, Content_Type = ''application/json'',
              Content_Length = length (py_str E (PDict ps))\<rparr>\<rparr>"

definition request ::
  "env \<Rightarrow> string \<Rightarrow> (string \<times> pyval) list \<Rightarrow> pyval \<Rightarrow> string \<Rightarrow> world \<Rightarrow> (error + response) \<times> world"
where
  "request E u ps cookie method w =
     (if method = ''GET'' \<or> method = ''POST'' then
        (let c = build_call E method u ps cookie;
             w' = w\<lparr>calls := calls w @ [c]\<rparr>
         in case http E c of
              Inl e \<Rightarrow> (Inl e, w')
            | Inr resp \<Rightarrow>
                if \<not> ok resp then (Inl (Exception [PStr (reason resp)]), w')
                else (Inr resp, w'))
      else (Inl TypeError, w))"

subsection \<open>\<^verbatim>\<open>Camera.get_image\<close>\<close>

text \<open>
  \<^verbatim>\<open>int(response.headers.get('content-length', 0))\<close>: the default is the integer 0, a
  header that is present is a string.
\<close>

definition content_length_int :: "env \<Rightarrow> response \<Rightarrow> error + int" where
  "content_length_int E r =
     (case headers r ''content-length'' of
        None \<Rightarrow> int_of E (PInt 0)
      | Some s \<Rightarrow> int_of E (PStr s))"

text \<open>
  \<^verbatim>\<open>get_image(self, width=720, seconds=None)\<close>. The test \<^verbatim>\<open>status_code != 200 or not int(...)\<close>
  evaluates the length only when the status is 200.
\<close>

definition get_image ::
  "env \<Rightarrow> pyval \<Rightarrow> pyval \<Rightarrow> pyval \<Rightarrow> world \<Rightarrow> (error + response) \<times> world"
where
  "get_image E self width seconds w =
     (case py_getattr (heap w) self ''uuid'' of
        Inl e \<Rightarrow> (Inl e, w)
      | Inr uuid \<Rightarrow>
          (let ps = [(''uuid'', uuid), (''width'', width)]
                    @ (if truthy seconds then [(''time'', seconds)] else [])
           in case py_getattr (heap w) self ''dropcam'' of
                Inl e \<Rightarrow> (Inl e, w)
              | Inr d \<Rightarrow>
                  (case py_getattr (heap w) d ''cookie'' of
                     Inl e \<Rightarrow> (Inl e, w)
                   | Inr cookie \<Rightarrow>
                       (case request E CAMERAS_GET_IMAGE_PATH ps cookie ''GET'' w of
                          (Inl e, w') \<Rightarrow> (Inl e, w')
                        | (Inr resp, w') \<Rightarrow>
                            if status_code resp \<noteq> 200 then
                              (Inl (ConnectionError
                                 ''Camera image is not available or camera is turned off''), w')
                            else
                              (case content_length_int E resp of
                                 Inl e \<Rightarrow> (Inl e, w')
                               | Inr n \<Rightarrow>
                                   if n = 0 then
                                     (Inl (ConnectionError
                                        ''Camera image is not available or camera is turned off''), w')
                                   else (Inr resp, w'))))))"

subsection \<open>\<^verbatim>\<open>Camera.__init__\<close>\<close>

text \<open>
  \<^verbatim>\<open>__dict__.update(params)\<close>. A dictionary is merged. Any other argument is iterated
  as a sequence of key/value pairs: each element must itself be a sequence of length
  two (else \<^verbatim>\<open>ValueError\<close>, or \<^verbatim>\<open>TypeError\<close> when it is no sequence) with a hashable key.
  A pair whose key is not a string is dropped here, since no attribute access reaches
  it.
\<close>

fun hashable :: "pyval \<Rightarrow> bool" where
  "hashable (PList xs) = False"
| "hashable (PDict kvs) = False"
| "hashable v = True"

fun update_pair :: "pyval \<Rightarrow> error + (string \<times> pyval) list" where
  "update_pair (PList [k, v]) =
     (if hashable k then Inr (case k of PStr s \<Rightarrow> [(s, v)] | _ \<Rightarrow> []) else Inl TypeError)"
| "update_pair (PList xs) = Inl ValueError"
| "update_pair (PStr [a, b]) = Inr [([a], PStr [b])]"
| "update_pair (PStr s) = Inl ValueError"
| "update_pair (PDict [(k1, v1), (k2, v2)]) = Inr [(k1, PStr k2)]"
| "update_pair (PDict kvs) = Inl ValueError"
| "update_pair v = Inl TypeError"

fun update_seq :: "(string \<rightharpoonup> pyval) \<Rightarrow> pyval list \<Rightarrow> error + (string \<rightharpoonup> pyval)" where
  "update_seq d [] = Inr d"
| "update_seq d (x # xs) =
     (case update_pair x of
        Inl e \<Rightarrow> Inl e
      | Inr kv \<Rightarrow> update_seq (d ++ map_of kv) xs)"

fun dict_update :: "(string \<rightharpoonup> pyval) \<Rightarrow> pyval \<Rightarrow> error + (string \<rightharpoonup> pyval)" where
  "dict_update d (PDict kvs) = Inr (d ++ map_of kvs)"
| "dict_update d (PList xs) = update_seq d xs"
| "dict_update d (PStr s) = update_seq d (map (\<lambda>c. PStr [c]) s)"
| "dict_update d v = Inl TypeError"

text \<open>
  \<^verbatim>\<open>Camera(dropcam, params)\<close>: \<^verbatim>\<open>self.dropcam = dropcam\<close>, then the update; the result is the
  new instance's \<^verbatim>\<open>__dict__\<close>.
\<close>

definition Camera_init :: "pyval \<Rightarrow> pyval \<Rightarrow> error + (string \<rightharpoonup> pyval)" where
  "Camera_init dropcam ps = dict_update [''dropcam'' \<mapsto> dropcam] ps"

subsection \<open>\<^verbatim>\<open>Dropcam.login\<close> and \<^verbatim>\<open>Dropcam.__init__\<close>\<close>

text \<open>Assignment \<^verbatim>\<open>self.cookie = x\<close>.\<close>

definition set_cookie :: "obj list \<Rightarrow> pyval \<Rightarrow> pyval \<Rightarrow> error + obj list" where
  "set_cookie h self x =
     (case self of
        PRef a \<Rightarrow>
          (if a < length h then
             (case h ! a of
                DropcamObj u p c \<Rightarrow> Inr (h[a := DropcamObj u p x])
              | CameraObj d \<Rightarrow> Inr (h[a := CameraObj (d(''cookie'' \<mapsto> x))]))
           else Inl AttributeError)
      | _ \<Rightarrow> Inl AttributeError)"

definition login :: "env \<Rightarrow> pyval \<Rightarrow> world \<Rightarrow> (error + unit) \<times> world" where
  "login E self w =
     (case py_getattr (heap w) self ''_Dropcam__username'' of
        Inl e \<Rightarrow> (Inl e, w)
      | Inr username \<Rightarrow>
     (case py_getattr (heap w) self ''_Dropcam__password'' of
        Inl e \<Rightarrow> (Inl e, w)
      | Inr password \<Rightarrow>
     (case class_attr (heap w) self LOGIN_PATH of
        Inl e \<Rightarrow> (Inl e, w)
      | Inr u \<Rightarrow>
     (case request E u [(''username'', username), (''password'', password)]
             PNone ''POST'' w of
        (Inl e, w') \<Rightarrow> (Inl e, w')
      | (Inr resp, w') \<Rightarrow>
     (case json_loads E (content resp) of
        Inl e \<Rightarrow> (Inl e, w')
      | Inr response \<Rightarrow>
     (case py_get response ''items'' of
        Inl e \<Rightarrow> (Inl e, w')
      | Inr items \<Rightarrow>
     (case py_index0 items of
        Inl e \<Rightarrow> (Inl e, w')
      | Inr first \<Rightarrow>
     (case py_get first ''session_token'' of
        Inl e \<Rightarrow> (Inl e, w')
      | Inr tok \<Rightarrow>
     (case set_cookie (heap w') self (PStr (''website_2='' @ percent_s E tok)) of
        Inl e \<Rightarrow> (Inl e, w')
      | Inr h' \<Rightarrow> (Inr (), w'\<lparr>heap := h'\<rparr>))))))))))"

text \<open>
  \<^verbatim>\<open>Dropcam(username, password)\<close>: the new instance starts with \<^verbatim>\<open>cookie = None\<close> and logs
  in; the result is the reference to it.
\<close>

definition Dropcam_init :: "env \<Rightarrow> pyval \<Rightarrow> pyval \<Rightarrow> world \<Rightarrow> (error + pyval) \<times> world" where
  "Dropcam_init E username password w =
     (let self = PRef (length (heap w));
          w1 = w\<lparr>heap := heap w @ [DropcamObj username password PNone]\<rparr>
      in case login E self w1 of
           (Inl e, w2) \<Rightarrow> (Inl e, w2)
         | (Inr u, w2) \<Rightarrow> (Inr self, w2))"

subsection \<open>\<^verbatim>\<open>Dropcam.cameras\<close>\<close>

text \<open>
  The inner loop \<^verbatim>\<open>for params in item.get('owned'): cameras.append(Camera(self, params))\<close>
  over the elements of one owned list, and the outer loop over the items. \<open>cams\<close> is
  the list built so far, \<open>h\<close> the heap; a new instance gets the next free index.
\<close>

fun cameras_inner ::
  "pyval \<Rightarrow> pyval list \<Rightarrow> pyval list \<Rightarrow> obj list \<Rightarrow> error + (pyval list \<times> obj list)"
where
  "cameras_inner self [] cams h = Inr (cams, h)"
| "cameras_inner self (p # ps) cams h =
     (case Camera_init self p of
        Inl e \<Rightarrow> Inl e
      | Inr d \<Rightarrow> cameras_inner self ps (cams @ [PRef (length h)]) (h @ [CameraObj d]))"

fun cameras_outer ::
  "pyval \<Rightarrow> pyval list \<Rightarrow> pyval list \<Rightarrow> obj list \<Rightarrow> error + (pyval list \<times> obj list)"
where
  "cameras_outer self [] cams h = Inr (cams, h)"
| "cameras_outer self (item # items) cams h =
     (case py_get item ''owned'' of
        Inl e \<Rightarrow> Inl e
      | Inr owned \<Rightarrow>
          (case py_iter owned of
             Inl e \<Rightarrow> Inl e
           | Inr ps \<Rightarrow>
               (case cameras_inner self ps cams h of
                  Inl e \<Rightarrow> Inl e
                | Inr (cams', h') \<Rightarrow> cameras_outer self items cams' h')))"

text \<open>
  \<^verbatim>\<open>cameras(self)\<close>. The request goes out with the default method \<^verbatim>\<open>GET\<close>. When a loop
  raises, the instances made so far are unreachable and the heap is left as it was.
\<close>

definition cameras :: "env \<Rightarrow> pyval \<Rightarrow> world \<Rightarrow> (error + pyval list) \<times> world" where
  "cameras E self w =
     (case class_attr (heap w) self CAMERAS_GET_VISIBLE of
        Inl e \<Rightarrow> (Inl e, w)
      | Inr u \<Rightarrow>
     (case py_getattr (heap w) self ''cookie'' of
        Inl e \<Rightarrow> (Inl e, w)
      | Inr cookie \<Rightarrow>
     (case request E u [(''group_cameras'', PBool True)] cookie ''GET'' w of
        (Inl e, w') \<Rightarrow> (Inl e, w')
      | (Inr resp, w') \<Rightarrow>
     (case json_loads E (content resp) of
        Inl e \<Rightarrow> (Inl e, w')
      | Inr response \<Rightarrow>
     (case py_get response ''status'' of
        Inl e \<Rightarrow> (Inl e, w')
      | Inr status \<Rightarrow>
          if ne_zero status then
            (case py_get response ''status_detail'' of
               Inl e \<Rightarrow> (Inl e, w')
             | Inr detail \<Rightarrow> (Inl (Exception [status, detail]), w'))
          else
     (case py_get response ''items'' of
        Inl e \<Rightarrow> (Inl e, w')
      | Inr items \<Rightarrow>
     (case py_iter items of
        Inl e \<Rightarrow> (Inl e, w')
      | Inr its \<Rightarrow>
     (case cameras_outer self its [] (heap w') of
        Inl e \<Rightarrow> (Inl e, w')
      | Inr (cams, h') \<Rightarrow> (Inr cams, w'\<lparr>heap := h'\<rparr>)))))))))"

subsection \<open>\<^verbatim>\<open>Camera.set_property\<close>\<close>

text \<open>
  \<^verbatim>\<open>"/".join([Dropcam.PROPERTIES_PATH, self.uuid])\<close> needs a string; the dictionary
  \<^verbatim>\<open>data\<close> is handed to \<^verbatim>\<open>request\<close> as its \<^verbatim>\<open>params\<close>. The response is dropped and the
  method returns \<^verbatim>\<open>None\<close>.
\<close>

definition set_property ::
  "env \<Rightarrow> pyval \<Rightarrow> pyval \<Rightarrow> pyval \<Rightarrow> world \<Rightarrow> (error + unit) \<times> world"
where
  "set_property E self name val w =
     (case py_getattr (heap w) self ''uuid'' of
        Inl e \<Rightarrow> (Inl e, w)
      | Inr uuid \<Rightarrow>
     (case uuid of
        PStr s \<Rightarrow>
          (let u = py_join ''/'' [PROPERTIES_PATH, s];
               d = [(''camera_uuid'', uuid), (''name'', name), (''value'', val)]
           in case py_getattr (heap w) self ''dropcam'' of
                Inl e \<Rightarrow> (Inl e, w)
              | Inr dc \<Rightarrow>
                  (case py_getattr (heap w) dc ''cookie'' of
                     Inl e \<Rightarrow> (Inl e, w)
                   | Inr cookie \<Rightarrow>
                       (case request E u d cookie ''POST'' w of
                          (Inl e, w') \<Rightarrow> (Inl e, w')
                        | (Inr resp, w') \<Rightarrow> (Inr (), w'))))
      | _ \<Rightarrow> (Inl TypeError, w)))"

subsection \<open>\<^verbatim>\<open>Camera.events\<close>\<close>

text \<open>
  \<^verbatim>\<open>events(self, start, end=None)\<close>. After the response is parsed the loop header
  \<^verbatim>\<open>for item in items\<close> reads the name \<^verbatim>\<open>items\<close>, which is bound neither in the method
  nor in the module: \<^verbatim>\<open>NameError\<close>. The loop body, which would build the \<^verbatim>\<open>Event\<close>
  instances, is never reached.
\<close>

definition events ::
  "env \<Rightarrow> pyval \<Rightarrow> pyval \<Rightarrow> pyval \<Rightarrow> world \<Rightarrow> (error + pyval list) \<times> world"
where
  "events E self start endt w =
     (case int_of E start of
        Inl e \<Rightarrow> (Inl e, w)
      | Inr start' \<Rightarrow>
     (let end' = (if endt = PNone then PInt (clock E) else endt)
      in case py_getattr (heap w) self ''uuid'' of
        Inl e \<Rightarrow> (Inl e, w)
      | Inr uuid \<Rightarrow>
     (let ps = [(''uuid'', uuid), (''start_time'', PInt start'), (''end_time'', end')]
      in case py_getattr (heap w) self ''dropcam'' of
        Inl e \<Rightarrow> (Inl e, w)
      | Inr dc \<Rightarrow>
     (case py_getattr (heap w) dc ''cookie'' of
        Inl e \<Rightarrow> (Inl e, w)
      | Inr cookie \<Rightarrow>
     (case request E EVENT_PATH ps cookie ''GET'' w of
        (Inl e, w') \<Rightarrow> (Inl e, w')
      | (Inr resp, w') \<Rightarrow>
     (case json_loads E (content resp) of
        Inl e \<Rightarrow> (Inl e, w')
      | Inr response \<Rightarrow> (Inl (NameError ''items''), w')))))))"

subsection \<open>\<^verbatim>\<open>Camera.save_image\<close>\<close>

text \<open>
  Writing \<open>bytes\<close> at position \<open>pos\<close> of a file whose contents are \<open>old\<close>.
\<close>

definition write_at :: "string \<Rightarrow> nat \<Rightarrow> string \<Rightarrow> string" where
  "write_at old pos bytes = take pos old @ bytes @ drop (pos + length bytes) old"

text \<open>
  \<^verbatim>\<open>save_image(self, path, width=720, seconds=None)\<close>: \<^verbatim>\<open>open(path, "wb")\<close> creates the file
  or cuts it to length 0 (or raises \<^verbatim>\<open>IOError\<close>); then \<^verbatim>\<open>self.get_image\<close> is looked up and
  called; then the body is written at position 0 of the file as it is by then.
\<close>

definition save_image ::
  "env \<Rightarrow> pyval \<Rightarrow> string \<Rightarrow> pyval \<Rightarrow> pyval \<Rightarrow> world \<Rightarrow> (error + unit) \<times> world"
where
  "save_image E self path width seconds w =
     (if \<not> can_open E path then (Inl IOError, w)
      else
        (let w1 = w\<lparr>files := (files w)(path \<mapsto> [])\<rparr>
         in case bound_method (heap w1) self ''get_image'' of
              Inl e \<Rightarrow> (Inl e, w1)
            | Inr m \<Rightarrow>
                (case get_image E self width seconds w1 of
                   (Inl e, w2) \<Rightarrow> (Inl e, w2)
                 | (Inr resp, w2) \<Rightarrow>
                     (Inr (),
                      w2\<lparr>files := (files w2)(path \<mapsto>
                           write_at (case files w2 path of None \<Rightarrow> [] | Some old \<Rightarrow> old) 0
                             (content resp))\<rparr>))))"

section \<open>Shapes of the vendor payloads\<close>

text \<open>
  The shape \<^verbatim>\<open>login\<close> navigates, \<^verbatim>\<open>response.get("items")[0].get(...)\<close>: a JSON object
  whose \<^verbatim>\<open>items\<close> entry is a list that starts with an object.
\<close>

fun login_shape :: "pyval \<Rightarrow> bool" where
  "login_shape (PDict kvs) =
     (case map_of kvs ''items'' of Some (PList (PDict first # rest)) \<Rightarrow> True | _ \<Rightarrow> False)"
| "login_shape v = False"

text \<open>
  A camera listing is a list of groups: a group is an object whose \<^verbatim>\<open>owned\<close> entry is a
  list of objects, one per camera. \<open>owned_of\<close> is a group's owned list, \<open>camera_of\<close> the
  \<^verbatim>\<open>Camera\<close> instance that holds the account reference and an entry's fields.
\<close>

fun is_dict :: "pyval \<Rightarrow> bool" where
  "is_dict (PDict kvs) = True"
| "is_dict v = False"

fun dict_items :: "pyval \<Rightarrow> (string \<times> pyval) list" where
  "dict_items (PDict kvs) = kvs"
| "dict_items v = []"

fun owned_of :: "pyval \<Rightarrow> pyval list" where
  "owned_of (PDict kvs) = (case map_of kvs ''owned'' of Some (PList cs) \<Rightarrow> cs | _ \<Rightarrow> [])"
| "owned_of v = []"

fun is_group :: "pyval \<Rightarrow> bool" where
  "is_group (PDict kvs) =
     (case map_of kvs ''owned'' of Some (PList cs) \<Rightarrow> list_all is_dict cs | _ \<Rightarrow> False)"
| "is_group v = False"

definition camera_of :: "pyval \<Rightarrow> pyval \<Rightarrow> obj" where
  "camera_of self p = CameraObj ([''dropcam'' \<mapsto> self] ++ map_of (dict_items p))"

section \<open>Sample data\<close>

text \<open>
  Concrete values, used where a statement is evaluated. The world holds one \<^verbatim>\<open>Dropcam\<close>
  instance (index 0) that is logged in, two of its cameras (indices 1 and 2) and one
  file.
\<close>

definition sample_world :: world where
  "sample_world =
     \<lparr>heap = [DropcamObj (PStr ''user'') (PStr ''secret'') (PStr ''website_2=t0k''),
              CameraObj [''dropcam'' \<mapsto> PRef 0, ''uuid'' \<mapsto> PStr ''c0'',
                         ''title'' \<mapsto> PStr ''Hall'', ''is_online'' \<mapsto> PBool False],
              CameraObj [''dropcam'' \<mapsto> PRef 0, ''uuid'' \<mapsto> PStr ''c1'',
                         ''title'' \<mapsto> PStr ''Porch'', ''is_online'' \<mapsto> PBool True]],
      calls = [], files = [''old.jpg'' \<mapsto> ''previous'']\<rparr>"

definition empty_world :: world where
  "empty_world = \<lparr>heap = [], calls = [], files = Map.empty\<rparr>"

text \<open>The message of the module's \<^verbatim>\<open>ConnectionError\<close>.\<close>

definition unavailable :: string where
  "unavailable = ''Camera image is not available or camera is turned off''"

text \<open>JSON bodies of the vendor, and what \<^verbatim>\<open>json.loads\<close> makes of each of them.\<close>

definition body_login_ok :: string where
  \<open>body_login_ok = ''{"items": [{"session_token": "abc"}]}''\<close>

definition body_login_no_token :: string where
  \<open>body_login_no_token = ''{"items": [{}]}''\<close>

definition body_login_no_items :: string where
  \<open>body_login_no_items = ''{"items": []}''\<close>

definition body_listing :: string where
  \<open>body_listing = ''{"status": 0, "items": [{"owned": [{"uuid": "c0", "title": "Hall"}, {"uuid": "c1", "title": "Porch"}]}, {"owned": []}, {"owned": [{"uuid": "c0", "title": "Hall"}]}]}''\<close>

definition body_listing_denied :: string where
  \<open>body_listing_denied = ''{"status": 7, "status_detail": "denied"}''\<close>

definition body_events :: string where
  \<open>body_events = ''{"items": [{"type": "motion"}]}''\<close>

definition sample_listing :: pyval where
  "sample_listing =
     PDict [(''status'', PInt 0),
            (''items'', PList
               [PDict [(''owned'', PList [PDict [(''uuid'', PStr ''c0''), (''title'', PStr ''Hall'')],
                                          PDict [(''uuid'', PStr ''c1''), (''title'', PStr ''Porch'')]])],
                PDict [(''owned'', PList [])],
                PDict [(''owned'', PList [PDict [(''uuid'', PStr ''c0''), (''title'', PStr ''Hall'')]])]])]"

definition sample_loads :: "string \<Rightarrow> error + pyval" where
  "sample_loads s =
     (if s = body_login_ok then
        Inr (PDict [(''items'', PList [PDict [(''session_token'', PStr ''abc'')]])])
      else if s = body_login_no_token then Inr (PDict [(''items'', PList [PDict []])])
      else if s = body_login_no_items then Inr (PDict [(''items'', PList [])])
      else if s = body_listing then Inr sample_listing
      else if s = body_listing_denied then
        Inr (PDict [(''status'', PInt 7), (''status_detail'', PStr ''denied'')])
      else if s = body_events then
        Inr (PDict [(''items'', PList [PDict [(''type'', PStr ''motion'')]])])
      else Inl ValueError)"

text \<open>\<^verbatim>\<open>int()\<close> on a plain string of decimal digits; no other string is parsed below.\<close>

definition sample_int :: "string \<Rightarrow> error + int" where
  "sample_int s =
     (if s \<noteq> [] \<and> list_all (\<lambda>c. c \<in> set ''0123456789'') s
      then Inr (int (foldl (\<lambda>n c. 10 * n + (of_char c - 48)) 0 s))
      else Inl ValueError)"

text \<open>
  Responses: a 200 answer carrying a body and its length, an answer with another
  status and no body, and the 200 answer without a length that the vendor gives for
  a camera that is off.
\<close>

definition ok_response :: "string \<Rightarrow> response" where
  "ok_response body =
     \<lparr>status_code = 200, reason = ''OK'',
      headers = [''content-length'' \<mapsto> nat_digits (length body)], content = body\<rparr>"

definition status_response :: "int \<Rightarrow> string \<Rightarrow> response" where
  "status_response st rs =
     \<lparr>status_code = st, reason = rs, headers = [''content-length'' \<mapsto> ''0''], content = []\<rparr>"

definition offline_response :: response where
  "offline_response = \<lparr>status_code = 200, reason = ''OK'', headers = Map.empty, content = []\<rparr>"

text \<open>
  An environment whose HTTP stack gives one fixed answer. Its \<open>py_str\<close> is a stand-in:
  \<^verbatim>\<open>str()\<close> feeds only the \<^verbatim>\<open>Content-Length\<close> request header, on which no statement
  below depends.
\<close>

definition sample_env :: "error + response \<Rightarrow> env" where
  "sample_env answer =
     \<lparr>http = (\<lambda>c. answer), json_loads = sample_loads, py_str = (\<lambda>v. ''?''),
      py_int = sample_int, clock = 1500000000, can_open = (\<lambda>p. True)\<rparr>"

text \<open>The same environment when no file can be opened for writing.\<close>

definition locked_env :: "error + response \<Rightarrow> env" where
  "locked_env answer = (sample_env answer)\<lparr>can_open := (\<lambda>p. False)\<rparr>"

text \<open>
  A world whose camera at index 2 was listed with a vendor field named \<^verbatim>\<open>get_image\<close>.
\<close>

definition shadowed_world :: world where
  "shadowed_world =
     \<lparr>heap = [DropcamObj (PStr ''user'') (PStr ''secret'') (PStr ''website_2=t0k''),
              CameraObj [''dropcam'' \<mapsto> PRef 0, ''uuid'' \<mapsto> PStr ''c0'',
                         ''title'' \<mapsto> PStr ''Hall'', ''is_online'' \<mapsto> PBool False],
              CameraObj [''dropcam'' \<mapsto> PRef 0, ''uuid'' \<mapsto> PStr ''c2'',
                         ''title'' \<mapsto> PStr ''Yard'', ''is_online'' \<mapsto> PBool True,
                         ''get_image'' \<mapsto> PStr ''https://nexusapi.dropcam.com/get_image'']],
      calls = [], files = [''old.jpg'' \<mapsto> ''previous'']\<rparr>"

section \<open>Facts about the sample data\<close>

lemma sample_env_sel:
  "http (sample_env answer) c = answer"
  "json_loads (sample_env answer) = sample_loads"
  "py_int (sample_env answer) = sample_int"
  "clock (sample_env answer) = 1500000000"
  "can_open (sample_env answer) p"
  by (simp_all add: sample_env_def)

lemma sample_loads_eqs:
  "sample_loads body_login_ok
     = Inr (PDict [(''items'', PList [PDict [(''session_token'', PStr ''abc'')]])])"
  "sample_loads body_login_no_token = Inr (PDict [(''items'', PList [PDict []])])"
  "sample_loads body_login_no_items = Inr (PDict [(''items'', PList [])])"
  "sample_loads body_listing = Inr sample_listing"
  "sample_loads body_listing_denied
     = Inr (PDict [(''status'', PInt 7), (''status_detail'', PStr ''denied'')])"
  "sample_loads body_events = Inr (PDict [(''items'', PList [PDict [(''type'', PStr ''motion'')]])])"
  by (simp_all add: sample_loads_def body_login_ok_def body_login_no_token_def
        body_login_no_items_def body_listing_def body_listing_denied_def body_events_def)

lemma sample_int_eqs:
  "sample_int ''0'' = Inr 0"
  "sample_int ''4'' = Inr 4"
  by (simp_all add: sample_int_def)

lemma ok_response_sel:
  "status_code (ok_response b) = 200"
  "content (ok_response b) = b"
  "ok (ok_response b)"
  "headers (ok_response ''JFIF'') ''content-length'' = Some ''4''"
  by (simp_all add: ok_response_def ok_def)

lemma status_response_sel:
  "status_code (status_response st rs) = st"
  "reason (status_response st rs) = rs"
  "headers (status_response st rs) ''content-length'' = Some ''0''"
  by (simp_all add: status_response_def)

lemma offline_response_sel:
  "status_code offline_response = 200"
  "headers offline_response ''content-length'' = None"
  by (simp_all add: offline_response_def)

lemma sample_attrs:
  "py_getattr (heap sample_world) (PRef 2) ''uuid'' = Inr (PStr ''c1'')"
  "py_getattr (heap sample_world) (PRef 2) ''dropcam'' = Inr (PRef 0)"
  "py_getattr (heap sample_world) (PRef 0) ''cookie'' = Inr (PStr ''website_2=t0k'')"
  by (simp_all add: py_getattr_def sample_world_def)

lemma sample_account:
  "0 < length (heap sample_world)"
  "heap sample_world ! 0 = DropcamObj (PStr ''user'') (PStr ''secret'') (PStr ''website_2=t0k'')"
  "length (heap sample_world) = 3"
  by (simp_all add: sample_world_def)

lemma sample_camera:
  "2 < length (heap sample_world)"
  "heap sample_world ! 2 =
     CameraObj [''dropcam'' \<mapsto> PRef 0, ''uuid'' \<mapsto> PStr ''c1'',
                ''title'' \<mapsto> PStr ''Porch'', ''is_online'' \<mapsto> PBool True]"
  by (simp_all add: sample_world_def)

lemma shadowed_camera:
  "2 < length (heap shadowed_world)"
  "heap shadowed_world ! 2 =
     CameraObj [''dropcam'' \<mapsto> PRef 0, ''uuid'' \<mapsto> PStr ''c2'',
                ''title'' \<mapsto> PStr ''Yard'', ''is_online'' \<mapsto> PBool True,
                ''get_image'' \<mapsto> PStr ''https://nexusapi.dropcam.com/get_image'']"
  "calls shadowed_world = []"
  "files shadowed_world ''old.jpg'' = Some ''previous''"
  by (simp_all add: shadowed_world_def)

lemma locked_env_sel: "\<not> can_open (locked_env answer) p"
  by (simp add: locked_env_def)

lemma sample_calls: "calls sample_world = []"
  by (simp add: sample_world_def)

lemma sample_file: "files sample_world ''old.jpg'' = Some ''previous''"
  by (simp add: sample_world_def)

section \<open>The transport function\<close>

lemma request_eq:
  "request E u ps cookie method w =
     (if method = ''GET'' \<or> method = ''POST'' then
        (case http E (build_call E method u ps cookie) of
           Inl e \<Rightarrow> Inl e
         | Inr r \<Rightarrow> if ok r then Inr r else Inl (Exception [PStr (reason r)]),
         w\<lparr>calls := calls w @ [build_call E method u ps cookie]\<rparr>)
      else (Inl TypeError, w))"
  by (simp add: request_def Let_def split: sum.splits)

text \<open>
  Claim C7, as the code has it. For a call with method \<^verbatim>\<open>GET\<close> or \<^verbatim>\<open>POST\<close>, \<^verbatim>\<open>request\<close> hands
  exactly one call to the HTTP library. When the library answers with a response that
  is ok (status code outside 400..599) the response is returned unchanged; when the
  response is not ok, \<^verbatim>\<open>Exception(resp.reason)\<close> is raised, carrying the reason phrase
  and nothing else; when the library itself raises (no connection), that exception
  propagates as it is.
\<close>

theorem request_transport:
  assumes "method = ''GET'' \<or> method = ''POST''"
  shows "(http E (build_call E method u ps cookie) = Inr r
            \<and> \<not> (400 \<le> status_code r \<and> status_code r < 600)
            \<longrightarrow> fst (request E u ps cookie method w) = Inr r)
       \<and> (http E (build_call E method u ps cookie) = Inr r
            \<and> 400 \<le> status_code r \<and> status_code r < 600
            \<longrightarrow> fst (request E u ps cookie method w) = Inl (Exception [PStr (reason r)]))
       \<and> (http E (build_call E method u ps cookie) = Inl e
            \<longrightarrow> fst (request E u ps cookie method w) = Inl e)
       \<and> calls (snd (request E u ps cookie method w)) =
           calls w @ [build_call E method u ps cookie]"
  using assms by (simp add: request_eq ok_def)

text \<open>The theorem at the answers 200 and 404 and at a connection that times out.\<close>

theorem request_transport_witness:
  "fst (request (sample_env (Inr (ok_response body_listing)))
          CAMERAS_GET_VISIBLE [] PNone ''GET'' sample_world)
     = Inr (ok_response body_listing)
   \<and> fst (request (sample_env (Inr (status_response 404 ''Not Found'')))
          LOGIN_PATH [] PNone ''POST'' sample_world)
     = Inl (Exception [PStr ''Not Found''])
   \<and> fst (request (sample_env (Inl (StackError ''timed out'')))
          CAMERAS_GET_VISIBLE [] PNone ''GET'' sample_world)
     = Inl (StackError ''timed out'')"
  using request_transport [of "''GET''" "sample_env (Inr (ok_response body_listing))"
          CAMERAS_GET_VISIBLE "[]" PNone "ok_response body_listing"]
        request_transport [of "''POST''" "sample_env (Inr (status_response 404 ''Not Found''))"
          LOGIN_PATH "[]" PNone "status_response 404 ''Not Found''"]
        request_transport [of "''GET''" "sample_env (Inl (StackError ''timed out''))"
          CAMERAS_GET_VISIBLE "[]" PNone _ _ "StackError ''timed out''"]
  by (simp add: sample_env_sel ok_response_sel status_response_sel)

text \<open>
  C7 as stated fails in two places: a connection failure does not become the generic
  error with a reason phrase, and a response with the non-2xx status 304 is returned,
  not raised.
\<close>

theorem request_not_ok_counterexample:
  "fst (request (sample_env (Inl (StackError ''connection refused'')))
          CAMERAS_GET_VISIBLE [] PNone ''GET'' sample_world)
     = Inl (StackError ''connection refused'')
   \<and> fst (request (sample_env (Inr (status_response 304 ''Not Modified'')))
          CAMERAS_GET_VISIBLE [] PNone ''GET'' sample_world)
     = Inr (status_response 304 ''Not Modified'')"
  by (simp add: request_eq sample_env_sel ok_def status_response_sel)

section \<open>Image retrieval\<close>

lemma get_image_eq:
  assumes "py_getattr (heap w) self ''uuid'' = Inr uuid"
    and "py_getattr (heap w) self ''dropcam'' = Inr d"
    and "py_getattr (heap w) d ''cookie'' = Inr cookie"
  shows "get_image E self width seconds w =
     (let c = build_call E ''GET'' CAMERAS_GET_IMAGE_PATH
                ([(''uuid'', uuid), (''width'', width)]
                 @ (if truthy seconds then [(''time'', seconds)] else [])) cookie
      in (case http E c of
            Inl e \<Rightarrow> Inl e
          | Inr r \<Rightarrow>
              if \<not> ok r then Inl (Exception [PStr (reason r)])
              else if status_code r \<noteq> 200 then Inl (ConnectionError unavailable)
              else (case content_length_int E r of
                      Inl e \<Rightarrow> Inl e
                    | Inr n \<Rightarrow> if n = 0 then Inl (ConnectionError unavailable) else Inr r),
          w\<lparr>calls := calls w @ [c]\<rparr>))"
proof (cases "truthy seconds")
  case True
  then show ?thesis
    using assms
    by (cases "http E (build_call E ''GET'' CAMERAS_GET_IMAGE_PATH
                 [(''uuid'', uuid), (''width'', width), (''time'', seconds)] cookie)")
       (simp_all add: get_image_def request_eq unavailable_def split: sum.splits)
next
  case False
  then show ?thesis
    using assms
    by (cases "http E (build_call E ''GET'' CAMERAS_GET_IMAGE_PATH
                 [(''uuid'', uuid), (''width'', width)] cookie)")
       (simp_all add: get_image_def request_eq unavailable_def split: sum.splits)
qed

lemma request_frame:
  "request E u ps cookie method w = (x, w') \<Longrightarrow> heap w' = heap w \<and> files w' = files w"
  by (auto simp: request_eq split: if_splits)

lemma get_image_frame:
  "get_image E self width seconds w = (x, w') \<Longrightarrow> heap w' = heap w \<and> files w' = files w"
  by (auto simp: get_image_def Let_def split: sum.splits prod.splits if_splits dest: request_frame)




text \<open>
  Claim C2, as the code has it. For a camera with a \<^verbatim>\<open>uuid\<close> whose account has a cookie,
  and a response \<open>r\<close> to the image request: \<^verbatim>\<open>get_image\<close> returns \<open>r\<close> itself when the
  status code is 200 and the content-length header parses to a positive integer; it
  raises \<^verbatim>\<open>ConnectionError\<close> when the status code is 200 and the header is absent or
  parses to 0; a response with a status code in 400..599 (such as 500) surfaces as the
  error raised by \<^verbatim>\<open>request\<close>; every other response whose status code is not 200 raises
  \<^verbatim>\<open>ConnectionError\<close>.
\<close>

theorem get_image_outcomes:
  assumes "py_getattr (heap w) self ''uuid'' = Inr uuid"
    and "py_getattr (heap w) self ''dropcam'' = Inr d"
    and "py_getattr (heap w) d ''cookie'' = Inr cookie"
    and "http E (build_call E ''GET'' CAMERAS_GET_IMAGE_PATH
                  ([(''uuid'', uuid), (''width'', width)]
                   @ (if truthy seconds then [(''time'', seconds)] else [])) cookie) = Inr r"
  shows "(status_code r = 200 \<and> headers r ''content-length'' = Some s \<and> py_int E s = Inr n \<and> 0 < n
            \<longrightarrow> fst (get_image E self width seconds w) = Inr r)
       \<and> (status_code r = 200 \<and> (headers r ''content-length'' = None
             \<or> headers r ''content-length'' = Some s \<and> py_int E s = Inr 0)
            \<longrightarrow> fst (get_image E self width seconds w) = Inl (ConnectionError unavailable))
       \<and> (400 \<le> status_code r \<and> status_code r < 600
            \<longrightarrow> fst (get_image E self width seconds w) = Inl (Exception [PStr (reason r)]))
       \<and> (status_code r \<noteq> 200 \<and> \<not> (400 \<le> status_code r \<and> status_code r < 600)
            \<longrightarrow> fst (get_image E self width seconds w) = Inl (ConnectionError unavailable))"
  using assms(4)
  by (auto simp: get_image_eq [OF assms(1-3)] Let_def ok_def content_length_int_def)

text \<open>The four cases at the answers 200 with a length, 200 without, 500 and 204.\<close>

theorem get_image_outcomes_witness:
  "fst (get_image (sample_env (Inr (ok_response ''JFIF''))) (PRef 2) (PInt 720) PNone sample_world)
     = Inr (ok_response ''JFIF'')
   \<and> fst (get_image (sample_env (Inr offline_response)) (PRef 2) (PInt 720) PNone sample_world)
     = Inl (ConnectionError unavailable)
   \<and> fst (get_image (sample_env (Inr (status_response 200 ''OK'')))
            (PRef 2) (PInt 720) PNone sample_world)
     = Inl (ConnectionError unavailable)
   \<and> fst (get_image (sample_env (Inr (status_response 500 ''Internal Server Error'')))
            (PRef 2) (PInt 720) PNone sample_world)
     = Inl (Exception [PStr ''Internal Server Error''])
   \<and> fst (get_image (sample_env (Inr (status_response 204 ''No Content'')))
            (PRef 2) (PInt 720) PNone sample_world)
     = Inl (ConnectionError unavailable)"
  using get_image_outcomes [OF sample_attrs, of "sample_env (Inr (ok_response ''JFIF''))"
          "PInt 720" PNone "ok_response ''JFIF''" "''4''" 4]
        get_image_outcomes [OF sample_attrs, of "sample_env (Inr offline_response)"
          "PInt 720" PNone offline_response "[]" 0]
        get_image_outcomes [OF sample_attrs, of "sample_env (Inr (status_response 200 ''OK''))"
          "PInt 720" PNone "status_response 200 ''OK''" "''0''" 0]
        get_image_outcomes [OF sample_attrs,
          of "sample_env (Inr (status_response 500 ''Internal Server Error''))"
          "PInt 720" PNone "status_response 500 ''Internal Server Error''" "[]" 0]
        get_image_outcomes [OF sample_attrs,
          of "sample_env (Inr (status_response 204 ''No Content''))"
          "PInt 720" PNone "status_response 204 ''No Content''" "[]" 0]
  by (simp add: sample_env_sel ok_response_sel status_response_sel offline_response_sel
                sample_int_eqs)

text \<open>
  C2 as stated fails at the non-2xx status 304: the response passes \<^verbatim>\<open>request\<close> and
  \<^verbatim>\<open>get_image\<close> raises \<^verbatim>\<open>ConnectionError\<close>, not the transport error.
\<close>

theorem get_image_non_2xx_counterexample:
  "fst (get_image (sample_env (Inr (status_response 304 ''Not Modified'')))
          (PRef 2) (PInt 720) PNone sample_world)
     = Inl (ConnectionError ''Camera image is not available or camera is turned off'')"
  by (subst get_image_eq [OF sample_attrs])
     (simp add: sample_env_sel ok_def status_response_sel unavailable_def)

text \<open>
  Claim C10. \<^verbatim>\<open>get_image\<close> with \<^verbatim>\<open>seconds = 0\<close> is \<^verbatim>\<open>get_image\<close> with \<^verbatim>\<open>seconds\<close> left out
  (\<^verbatim>\<open>None\<close>): same result, same request; and so for \<^verbatim>\<open>save_image\<close>. So is every call
  whose \<^verbatim>\<open>seconds\<close> is not truthy. The one request \<^verbatim>\<open>get_image\<close> issues is a \<^verbatim>\<open>GET\<close> to the
  image url whose parameters are \<^verbatim>\<open>uuid\<close> and \<^verbatim>\<open>width\<close>, followed by \<^verbatim>\<open>time\<close> exactly when
  \<^verbatim>\<open>seconds\<close> is truthy.
\<close>

theorem seconds_zero_as_omitted:
  "get_image E self width (PInt 0) w = get_image E self width PNone w
   \<and> save_image E self path width (PInt 0) w = save_image E self path width PNone w
   \<and> (\<not> truthy seconds \<longrightarrow> get_image E self width seconds w = get_image E self width PNone w)
   \<and> (py_getattr (heap w) self ''uuid'' = Inr uuid
      \<and> py_getattr (heap w) self ''dropcam'' = Inr d
      \<and> py_getattr (heap w) d ''cookie'' = Inr cookie
      \<longrightarrow> calls (snd (get_image E self width seconds w)) =
            calls w @
            [\<lparr>verb = ''GET'', url = CAMERAS_GET_IMAGE_PATH,
               params = [(''uuid'', uuid), (''width'', width)]
                        @ (if truthy seconds then [(''time'', seconds)] else []),
               data = None,
               hdrs = \<lparr>Cookie = cookie, Referer = API_BASE,
                       Content_Type = ''application/json'',
                       Content_Length = length (py_str E (PDict
                         ([(''uuid'', uuid), (''width'', width)]
                          @ (if truthy seconds then [(''time'', seconds)] else []))))\<rparr>\<rparr>])"
proof -
  have a: "get_image E self width (PInt 0) w = get_image E self width PNone w" for w
    by (simp add: get_image_def)
  have s: "save_image E self path width (PInt 0) w = save_image E self path width PNone w"
    unfolding save_image_def a by (rule refl)
  have b: "\<not> truthy seconds \<Longrightarrow> get_image E self width seconds w = get_image E self width PNone w"
    by (simp add: get_image_def)
  have c: "calls (snd (get_image E self width seconds w)) =
            calls w @
            [\<lparr>verb = ''GET'', url = CAMERAS_GET_IMAGE_PATH,
               params = [(''uuid'', uuid), (''width'', width)]
                        @ (if truthy seconds then [(''time'', seconds)] else []),
               data = None,
               hdrs = \<lparr>Cookie = cookie, Referer = API_BASE,
                       Content_Type = ''application/json'',
                       Content_Length = length (py_str E (PDict
                         ([(''uuid'', uuid), (''width'', width)]
                          @ (if truthy seconds then [(''time'', seconds)] else []))))\<rparr>\<rparr>]"
    if "py_getattr (heap w) self ''uuid'' = Inr uuid"
      "py_getattr (heap w) self ''dropcam'' = Inr d"
      "py_getattr (heap w) d ''cookie'' = Inr cookie"
    by (simp add: get_image_eq [OF that] Let_def build_call_def)
  from a s b c show ?thesis by blast
qed

text \<open>
  The requests issued for \<^verbatim>\<open>seconds = 0\<close> and for a real time, on the second camera; an
  empty string as \<^verbatim>\<open>seconds\<close> counts as left out.
\<close>

theorem seconds_zero_as_omitted_witness:
  "map params (calls (snd (get_image (sample_env (Inl (StackError ''down'')))
                 (PRef 2) (PInt 720) (PInt 0) sample_world)))
     = [[(''uuid'', PStr ''c1''), (''width'', PInt 720)]]
   \<and> map params (calls (snd (get_image (sample_env (Inl (StackError ''down'')))
                 (PRef 2) (PInt 720) (PInt 1400000000) sample_world)))
     = [[(''uuid'', PStr ''c1''), (''width'', PInt 720), (''time'', PInt 1400000000)]]
   \<and> map verb (calls (snd (get_image (sample_env (Inl (StackError ''down'')))
                 (PRef 2) (PInt 720) (PInt 0) sample_world))) = [''GET'']
   \<and> map url (calls (snd (get_image (sample_env (Inl (StackError ''down'')))
                 (PRef 2) (PInt 720) (PInt 0) sample_world)))
     = [''https://nexusapi.dropcam.com/get_image'']
   \<and> get_image (sample_env (Inl (StackError ''down''))) (PRef 2) (PInt 720) (PStr []) sample_world
     = get_image (sample_env (Inl (StackError ''down''))) (PRef 2) (PInt 720) PNone sample_world"
  using seconds_zero_as_omitted [of "sample_env (Inl (StackError ''down''))"
          "PRef 2" "PInt 720" sample_world _ "PInt 0" "PStr ''c1''" "PRef 0"
          "PStr ''website_2=t0k''"]
        seconds_zero_as_omitted [of "sample_env (Inl (StackError ''down''))"
          "PRef 2" "PInt 720" sample_world _ "PInt 1400000000" "PStr ''c1''" "PRef 0"
          "PStr ''website_2=t0k''"]
        seconds_zero_as_omitted [of "sample_env (Inl (StackError ''down''))"
          "PRef 2" "PInt 720" sample_world _ "PStr []"]
  by (simp add: sample_attrs sample_calls CAMERAS_GET_IMAGE_PATH_def NEXUS_BASE_def)

section \<open>Saving an image\<close>

lemma request_files_indep:
  "request E u ps cookie method (w\<lparr>files := f\<rparr>) =
     (fst (request E u ps cookie method w), (snd (request E u ps cookie method w))\<lparr>files := f\<rparr>)"
  by (simp add: request_eq)

lemma get_image_files_indep:
  "get_image E self width seconds (w\<lparr>files := f\<rparr>) =
     (fst (get_image E self width seconds w), (snd (get_image E self width seconds w))\<lparr>files := f\<rparr>)"
  unfolding get_image_def Let_def request_files_indep
  by (simp split: sum.splits prod.splits)

lemma bound_method_files:
  "bound_method (heap (w\<lparr>files := f\<rparr>)) self name = bound_method (heap w) self name"
  by simp

lemma bound_method_camera:
  assumes "a < length h" and "h ! a = CameraObj d"
  shows "bound_method h (PRef a) name = (case d name of None \<Rightarrow> Inr () | Some x \<Rightarrow> Inl TypeError)"
  using assms by (simp add: bound_method_def)



text \<open>
  Claim C9. \<^verbatim>\<open>save_image\<close> opens the file, and so cuts it to length 0, before anything
  else:
  \<^item> when the file cannot be opened, \<^verbatim>\<open>save_image\<close> raises \<^verbatim>\<open>IOError\<close> and no request has
    been issued: the world is as before;
  \<^item> when the file can be opened, the camera has no vendor field named \<^verbatim>\<open>get_image\<close> and
    \<^verbatim>\<open>get_image\<close> raises \<open>e\<close>, \<^verbatim>\<open>save_image\<close> raises \<open>e\<close> and the file at \<open>path\<close> is left
    empty, whatever it held before; the world it leaves is the one \<^verbatim>\<open>get_image\<close> leaves
    when started on the emptied file;
  \<^item> when the file can be opened and the camera has a vendor field named \<^verbatim>\<open>get_image\<close>,
    the call of \<^verbatim>\<open>self.get_image\<close> raises \<^verbatim>\<open>TypeError\<close>: no request is issued and the file
    is left empty all the same.
\<close>

theorem save_image_truncates_first:
  assumes "a < length (heap w)" and "heap w ! a = CameraObj d"
  shows "(\<not> can_open E path
            \<longrightarrow> save_image E (PRef a) path width seconds w = (Inl IOError, w))
       \<and> (can_open E path \<and> d ''get_image'' = None
            \<and> fst (get_image E (PRef a) width seconds w) = Inl e
            \<longrightarrow> fst (save_image E (PRef a) path width seconds w) = Inl e
              \<and> files (snd (save_image E (PRef a) path width seconds w)) path = Some []
              \<and> snd (save_image E (PRef a) path width seconds w) =
                  snd (get_image E (PRef a) width seconds (w\<lparr>files := (files w)(path \<mapsto> [])\<rparr>)))
       \<and> (can_open E path \<and> d ''get_image'' = Some x
            \<longrightarrow> save_image E (PRef a) path width seconds w =
                  (Inl TypeError, w\<lparr>files := (files w)(path \<mapsto> [])\<rparr>))"
proof -
  have 1: "save_image E (PRef a) path width seconds w = (Inl IOError, w)" if "\<not> can_open E path"
    using that by (simp add: save_image_def)
  have 2: "fst (save_image E (PRef a) path width seconds w) = Inl e
              \<and> files (snd (save_image E (PRef a) path width seconds w)) path = Some []
              \<and> snd (save_image E (PRef a) path width seconds w) =
                  snd (get_image E (PRef a) width seconds (w\<lparr>files := (files w)(path \<mapsto> [])\<rparr>))"
    if "can_open E path" "d ''get_image'' = None"
       "fst (get_image E (PRef a) width seconds w) = Inl e"
    using that assms
    by (simp add: save_image_def Let_def bound_method_camera get_image_files_indep
             split: sum.splits)
  have 3: "save_image E (PRef a) path width seconds w =
                  (Inl TypeError, w\<lparr>files := (files w)(path \<mapsto> [])\<rparr>)"
    if "can_open E path" "d ''get_image'' = Some x"
    using that assms by (simp add: save_image_def Let_def bound_method_camera)
  from 1 2 3 show ?thesis by blast
qed

text \<open>
  An old file and three calls: a path that cannot be opened (the file and the list of
  requests stay as they were), a camera that is off (status 200, no content-length:
  the old file is emptied), and a camera listed with a field \<^verbatim>\<open>get_image\<close> (the old
  file is emptied and no request goes out).
\<close>

theorem save_image_truncates_first_witness:
  "files sample_world ''old.jpg'' = Some ''previous''
   \<and> save_image (locked_env (Inr offline_response))
          (PRef 2) ''old.jpg'' (PInt 720) PNone sample_world = (Inl IOError, sample_world)
   \<and> fst (save_image (sample_env (Inr offline_response))
          (PRef 2) ''old.jpg'' (PInt 720) PNone sample_world) = Inl (ConnectionError unavailable)
   \<and> files (snd (save_image (sample_env (Inr offline_response))
          (PRef 2) ''old.jpg'' (PInt 720) PNone sample_world)) ''old.jpg'' = Some []
   \<and> fst (save_image (sample_env (Inr (ok_response ''JFIF'')))
          (PRef 2) ''old.jpg'' (PInt 720) PNone shadowed_world) = Inl TypeError
   \<and> files (snd (save_image (sample_env (Inr (ok_response ''JFIF'')))
          (PRef 2) ''old.jpg'' (PInt 720) PNone shadowed_world)) ''old.jpg'' = Some []
   \<and> calls (snd (save_image (sample_env (Inr (ok_response ''JFIF'')))
          (PRef 2) ''old.jpg'' (PInt 720) PNone shadowed_world)) = []"
proof -
  let ?E = "sample_env (Inr offline_response)"
  let ?L = "locked_env (Inr offline_response)"
  let ?J = "sample_env (Inr (ok_response ''JFIF''))"
  have n: "[''dropcam'' \<mapsto> PRef 0, ''uuid'' \<mapsto> PStr ''c1'',
            ''title'' \<mapsto> PStr ''Porch'', ''is_online'' \<mapsto> PBool True] ''get_image'' = None"
    by simp
  have m: "[''dropcam'' \<mapsto> PRef 0, ''uuid'' \<mapsto> PStr ''c2'',
            ''title'' \<mapsto> PStr ''Yard'', ''is_online'' \<mapsto> PBool True,
            ''get_image'' \<mapsto> PStr ''https://nexusapi.dropcam.com/get_image''] ''get_image''
           = Some (PStr ''https://nexusapi.dropcam.com/get_image'')"
    by simp
  have o: "can_open ?E ''old.jpg''" and o': "can_open ?J ''old.jpg''"
    by (rule sample_env_sel)+
  have g: "fst (get_image ?E (PRef 2) (PInt 720) PNone sample_world)
             = Inl (ConnectionError unavailable)"
    by (subst get_image_eq [OF sample_attrs])
       (simp add: sample_env_sel ok_def offline_response_sel content_length_int_def)
  from save_image_truncates_first [OF sample_camera, of ?L "''old.jpg''"] locked_env_sel [of "Inr offline_response" "''old.jpg''"]
  have 1: "save_image ?L (PRef 2) ''old.jpg'' (PInt 720) PNone sample_world
             = (Inl IOError, sample_world)"
    by blast
  from save_image_truncates_first [OF sample_camera, of ?E "''old.jpg''"] o n g
  have 2: "fst (save_image ?E (PRef 2) ''old.jpg'' (PInt 720) PNone sample_world)
             = Inl (ConnectionError unavailable)
           \<and> files (snd (save_image ?E (PRef 2) ''old.jpg'' (PInt 720) PNone sample_world))
               ''old.jpg'' = Some []"
    by blast
  from save_image_truncates_first [OF shadowed_camera(1,2), of ?J "''old.jpg''"] o' m
  have "save_image ?J (PRef 2) ''old.jpg'' (PInt 720) PNone shadowed_world =
          (Inl TypeError, shadowed_world\<lparr>files := (files shadowed_world)(''old.jpg'' \<mapsto> [])\<rparr>)"
    by blast
  then have 3: "fst (save_image ?J (PRef 2) ''old.jpg'' (PInt 720) PNone shadowed_world) = Inl TypeError
       \<and> files (snd (save_image ?J (PRef 2) ''old.jpg'' (PInt 720) PNone shadowed_world)) ''old.jpg''
           = Some []
       \<and> calls (snd (save_image ?J (PRef 2) ''old.jpg'' (PInt 720) PNone shadowed_world)) = []"
    by (simp add: shadowed_camera)
  from 1 2 3 sample_file show ?thesis by blast
qed

section \<open>Setting a property\<close>

lemma set_property_frame_aux:
  "set_property E self name val w = (x, w') \<Longrightarrow> heap w' = heap w \<and> files w' = files w"
  by (auto simp: set_property_def Let_def split: sum.splits prod.splits pyval.splits
           dest: request_frame)

text \<open>
  Claim C8. Whatever \<^verbatim>\<open>set_property\<close> is called with and whether it returns or raises,
  the heap afterwards is the heap before: every attribute of the camera (\<^verbatim>\<open>uuid\<close>,
  \<^verbatim>\<open>title\<close>, \<^verbatim>\<open>is_online\<close>, every other vendor attribute, the \<^verbatim>\<open>dropcam\<close> back-reference)
  and of every other instance reads as it did. The files are untouched as well; the
  call changes nothing but the list of requests sent.
\<close>

theorem set_property_frame:
  "heap (snd (set_property E self name val w)) = heap w
   \<and> files (snd (set_property E self name val w)) = files w
   \<and> py_getattr (heap (snd (set_property E self name val w))) v a = py_getattr (heap w) v a"
  using set_property_frame_aux [of E self name val w "fst (set_property E self name val w)"
          "snd (set_property E self name val w)"]
  by simp

lemma set_property_eq:
  assumes "py_getattr (heap w) self ''uuid'' = Inr (PStr s)"
    and "py_getattr (heap w) self ''dropcam'' = Inr d"
    and "py_getattr (heap w) d ''cookie'' = Inr cookie"
  shows "set_property E self name val w =
     (case http E (build_call E ''POST'' (PROPERTIES_PATH @ ''/'' @ s)
                     [(''camera_uuid'', PStr s), (''name'', name), (''value'', val)] cookie) of
        Inl e \<Rightarrow> Inl e
      | Inr r \<Rightarrow> if ok r then Inr () else Inl (Exception [PStr (reason r)]),
      w\<lparr>calls := calls w @ [build_call E ''POST'' (PROPERTIES_PATH @ ''/'' @ s)
                     [(''camera_uuid'', PStr s), (''name'', name), (''value'', val)] cookie]\<rparr>)"
  using assms
  by (cases "http E (build_call E ''POST'' (PROPERTIES_PATH @ ''/'' @ s)
                     [(''camera_uuid'', PStr s), (''name'', name), (''value'', val)] cookie)")
     (simp_all add: set_property_def request_eq)

text \<open>
  Claim C6, as the code has it. For a camera whose \<^verbatim>\<open>uuid\<close> is the string \<open>s\<close> and whose
  account holds \<open>cookie\<close>, \<^verbatim>\<open>set_property(name, value)\<close> hands exactly one call to the HTTP
  library: a \<^verbatim>\<open>POST\<close> to the properties path with \<open>s\<close> appended, under that cookie, with
  the three fields \<^verbatim>\<open>camera_uuid\<close>, \<^verbatim>\<open>name\<close>, \<^verbatim>\<open>value\<close> as its \<^verbatim>\<open>params\<close> argument (the query
  string) and no body (\<^verbatim>\<open>data\<close> is \<^verbatim>\<open>None\<close>). When the answer has status 200 the method
  returns \<^verbatim>\<open>None\<close> and raises nothing.
\<close>

theorem set_property_one_post:
  assumes "py_getattr (heap w) self ''uuid'' = Inr (PStr s)"
    and "py_getattr (heap w) self ''dropcam'' = Inr d"
    and "py_getattr (heap w) d ''cookie'' = Inr cookie"
  shows "calls (snd (set_property E self name val w)) =
           calls w @ [\<lparr>verb = ''POST'', url = PROPERTIES_PATH @ ''/'' @ s,
                        params = [(''camera_uuid'', PStr s), (''name'', name), (''value'', val)],
                        data = None,
                        hdrs = \<lparr>Cookie = cookie, Referer = API_BASE,
                                Content_Type = ''application/json'',
                                Content_Length = length (py_str E (PDict
                                  [(''camera_uuid'', PStr s), (''name'', name), (''value'', val)]))\<rparr>\<rparr>]
       \<and> (http E (build_call E ''POST'' (PROPERTIES_PATH @ ''/'' @ s)
                     [(''camera_uuid'', PStr s), (''name'', name), (''value'', val)] cookie) = Inr r
            \<and> status_code r = 200
            \<longrightarrow> fst (set_property E self name val w) = Inr ())"
  by (simp add: set_property_eq [OF assms] build_call_def ok_def)

text \<open>
  Switching streaming off on the second camera: one \<^verbatim>\<open>POST\<close> to the camera's own
  properties url, answered with 200.
\<close>

theorem set_property_one_post_witness:
  "calls (snd (set_property (sample_env (Inr (ok_response [])))
                 (PRef 2) (PStr ''streaming.enabled'') (PBool False) sample_world))
     = [\<lparr>verb = ''POST'', url = ''https://www.dropcam.com/app/cameras/properties/c1'',
          params = [(''camera_uuid'', PStr ''c1''), (''name'', PStr ''streaming.enabled''),
                    (''value'', PBool False)],
          data = None,
          hdrs = \<lparr>Cookie = PStr ''website_2=t0k'', Referer = ''https://www.dropcam.com'',
                  Content_Type = ''application/json'',
                  Content_Length = length (py_str (sample_env (Inr (ok_response [])))
                    (PDict [(''camera_uuid'', PStr ''c1''), (''name'', PStr ''streaming.enabled''),
                            (''value'', PBool False)]))\<rparr>\<rparr>]
   \<and> fst (set_property (sample_env (Inr (ok_response [])))
            (PRef 2) (PStr ''streaming.enabled'') (PBool False) sample_world) = Inr ()"
  using set_property_one_post [OF sample_attrs, of "sample_env (Inr (ok_response []))"
          "PStr ''streaming.enabled''" "PBool False" "ok_response []"]
  by (simp add: sample_calls sample_env_sel ok_response_sel PROPERTIES_PATH_def API_BASE_def)

text \<open>
  C6 as stated fails on the body: the request \<^verbatim>\<open>set_property\<close> issues has no body, its
  fields travel as \<^verbatim>\<open>params\<close>.
\<close>

theorem set_property_body_counterexample:
  "map data (calls (snd (set_property (sample_env (Inr (ok_response [])))
                 (PRef 2) (PStr ''streaming.enabled'') (PBool False) sample_world))) = [None]
   \<and> map params (calls (snd (set_property (sample_env (Inr (ok_response [])))
                 (PRef 2) (PStr ''streaming.enabled'') (PBool False) sample_world)))
      = [[(''camera_uuid'', PStr ''c1''), (''name'', PStr ''streaming.enabled''),
          (''value'', PBool False)]]"
  by (subst (1 2) set_property_eq [OF sample_attrs]) (simp add: sample_calls build_call_def)

section \<open>Events\<close>

text \<open>Whatever it is called with, \<^verbatim>\<open>events\<close> ends in an exception.\<close>

lemma events_raises: "\<exists>e. fst (events E self start endt w) = Inl e"
  by (auto simp: events_def Let_def split: sum.splits prod.splits)

text \<open>
  Claim C3 at a concrete query: the vendor answers with one event, and \<^verbatim>\<open>events\<close>
  raises \<^verbatim>\<open>NameError\<close> instead of returning the list of \<^verbatim>\<open>Event\<close> instances. The request
  it issued carries the clock reading as \<^verbatim>\<open>end_time\<close>, since \<^verbatim>\<open>end\<close> was left out.
\<close>

theorem events_raises_NameError:
  "events (sample_env (Inr (ok_response body_events)))
          (PRef 2) (PInt 1400000000) PNone sample_world
     = (Inl (NameError ''items''),
        sample_world\<lparr>calls :=
          [build_call (sample_env (Inr (ok_response body_events))) ''GET'' EVENT_PATH
             [(''uuid'', PStr ''c1''), (''start_time'', PInt 1400000000),
              (''end_time'', PInt 1500000000)]
             (PStr ''website_2=t0k'')]\<rparr>)"
  by (simp add: events_def sample_attrs request_eq sample_calls sample_env_sel
                ok_response_sel sample_loads_eqs)

section \<open>Logging in\<close>

lemma login_eq:
  assumes "a < length (heap w)" and "heap w ! a = DropcamObj u p c"
  shows "login E (PRef a) w =
     (let call = build_call E ''POST'' LOGIN_PATH [(''username'', u), (''password'', p)] PNone;
          w' = w\<lparr>calls := calls w @ [call]\<rparr>
      in case http E call of
           Inl e \<Rightarrow> (Inl e, w')
         | Inr r \<Rightarrow>
             if \<not> ok r then (Inl (Exception [PStr (reason r)]), w')
             else
               (case json_loads E (content r) of
                  Inl e \<Rightarrow> (Inl e, w')
                | Inr payload \<Rightarrow>
                    (case py_get payload ''items'' of
                       Inl e \<Rightarrow> (Inl e, w')
                     | Inr items \<Rightarrow>
                         (case py_index0 items of
                            Inl e \<Rightarrow> (Inl e, w')
                          | Inr first \<Rightarrow>
                              (case py_get first ''session_token'' of
                                 Inl e \<Rightarrow> (Inl e, w')
                               | Inr tok \<Rightarrow>
                                   (Inr (), w'\<lparr>heap := (heap w)[a := DropcamObj u p
                                      (PStr (''website_2='' @ percent_s E tok))]\<rparr>))))))"
  using assms
  by (simp add: login_def py_getattr_def class_attr_def request_eq set_cookie_def Let_def
           split: sum.splits)

lemma login_raise_frame:
  "login E self w = (Inl e, w') \<Longrightarrow> heap w' = heap w"
  by (auto simp: login_def Let_def split: sum.splits prod.splits dest: request_frame)

lemma no_shape_raises:
  assumes "\<not> login_shape payload"
  shows "\<exists>e. (case py_get payload ''items'' of
                 Inl e \<Rightarrow> Inl e
               | Inr items \<Rightarrow>
                   (case py_index0 items of
                      Inl e \<Rightarrow> Inl e
                    | Inr first \<Rightarrow> py_get first ''session_token'')) = Inl e"
proof (cases payload)
  case (PDict kvs)
  show ?thesis
  proof (cases "map_of kvs ''items''")
    case None
    with PDict show ?thesis by simp
  next
    case (Some x)
    show ?thesis
    proof (cases x)
      case (PStr s)
      with PDict Some show ?thesis by (cases s) simp_all
    next
      case (PList xs)
      show ?thesis
      proof (cases xs)
        case Nil
        with PDict Some PList show ?thesis by simp
      next
        case (Cons y ys)
        with PDict Some PList assms show ?thesis by (cases y) simp_all
      qed
    qed (use PDict Some in simp_all)
  qed
qed simp_all

text \<open>
  Claim C4, as the code has it. For a \<^verbatim>\<open>Dropcam\<close> instance and the answer of the HTTP
  library to the one login \<^verbatim>\<open>POST\<close>:
  \<^item> an ok answer whose body parses to an object whose \<^verbatim>\<open>items\<close> list starts with an
    object holding the string \<open>tok\<close> as \<^verbatim>\<open>session_token\<close>: \<^verbatim>\<open>login\<close> returns and the cookie is
    \<^verbatim>\<open>website_2=\<close> followed by \<open>tok\<close>;
  \<^item> an answer that is not ok (the vendor rejects the credentials), an exception of
    the library, a body that does not parse, or a body without that shape (no object,
    no \<^verbatim>\<open>items\<close> list, an empty list, a first item that is no object): \<^verbatim>\<open>login\<close> raises;
  \<^item> whenever \<^verbatim>\<open>login\<close> raises, the heap, and with it the cookie, is as before;
  \<^item> a first item that is an object without a \<^verbatim>\<open>session_token\<close> does not make \<^verbatim>\<open>login\<close>
    raise: the cookie becomes \<^verbatim>\<open>website_2=None\<close>.
\<close>

theorem login_outcomes:
  assumes "a < length (heap w)" and "heap w ! a = DropcamObj u p c"
    and "http E (build_call E ''POST'' LOGIN_PATH [(''username'', u), (''password'', p)] PNone) = answer"
  shows "(\<forall>r kvs first rest tok.
            answer = Inr r \<and> ok r \<and> json_loads E (content r) = Inr (PDict kvs)
            \<and> map_of kvs ''items'' = Some (PList (PDict first # rest))
            \<and> map_of first ''session_token'' = Some (PStr tok)
            \<longrightarrow> fst (login E (PRef a) w) = Inr ()
                \<and> py_getattr (heap (snd (login E (PRef a) w))) (PRef a) ''cookie''
                    = Inr (PStr (''website_2='' @ tok)))
       \<and> (\<forall>r. answer = Inr r \<and> \<not> ok r
            \<longrightarrow> fst (login E (PRef a) w) = Inl (Exception [PStr (reason r)]))
       \<and> (\<forall>e. answer = Inl e \<longrightarrow> fst (login E (PRef a) w) = Inl e)
       \<and> (\<forall>r e. answer = Inr r \<and> ok r \<and> json_loads E (content r) = Inl e
            \<longrightarrow> fst (login E (PRef a) w) = Inl e)
       \<and> (\<forall>r payload. answer = Inr r \<and> ok r \<and> json_loads E (content r) = Inr payload
            \<and> \<not> login_shape payload
            \<longrightarrow> (\<exists>e. fst (login E (PRef a) w) = Inl e))
       \<and> (\<forall>e. fst (login E (PRef a) w) = Inl e
            \<longrightarrow> heap (snd (login E (PRef a) w)) = heap w)
       \<and> (\<forall>r kvs first rest.
            answer = Inr r \<and> ok r \<and> json_loads E (content r) = Inr (PDict kvs)
            \<and> map_of kvs ''items'' = Some (PList (PDict first # rest))
            \<and> map_of first ''session_token'' = None
            \<longrightarrow> fst (login E (PRef a) w) = Inr ()
                \<and> py_getattr (heap (snd (login E (PRef a) w))) (PRef a) ''cookie''
                    = Inr (PStr ''website_2=None''))"
proof -
  note eq = login_eq [OF assms(1,2), of E, unfolded assms(3) Let_def]
  have 1: "fst (login E (PRef a) w) = Inr ()
           \<and> py_getattr (heap (snd (login E (PRef a) w))) (PRef a) ''cookie''
               = Inr (PStr (''website_2='' @ tok))"
    if "answer = Inr r" "ok r" "json_loads E (content r) = Inr (PDict kvs)"
       "map_of kvs ''items'' = Some (PList (PDict first # rest))"
       "map_of first ''session_token'' = Some (PStr tok)" for r kvs first rest tok
    using that assms(1) by (simp add: eq py_getattr_def)
  have 2: "fst (login E (PRef a) w) = Inl (Exception [PStr (reason r)])"
    if "answer = Inr r" "\<not> ok r" for r
    using that by (simp add: eq)
  have 3: "fst (login E (PRef a) w) = Inl e" if "answer = Inl e" for e
    using that by (simp add: eq)
  have 4: "fst (login E (PRef a) w) = Inl e"
    if "answer = Inr r" "ok r" "json_loads E (content r) = Inl e" for r e
    using that by (simp add: eq)
  have 5: "\<exists>e. fst (login E (PRef a) w) = Inl e"
    if "answer = Inr r" "ok r" "json_loads E (content r) = Inr payload" "\<not> login_shape payload"
    for r payload
    using that(1-3) no_shape_raises [OF that(4)]
    by (auto simp: eq split: sum.splits)
  have 6: "heap (snd (login E (PRef a) w)) = heap w" if "fst (login E (PRef a) w) = Inl e" for e
    using login_raise_frame [of E "PRef a" w e "snd (login E (PRef a) w)"] that
    by (metis prod.collapse)
  have 7: "fst (login E (PRef a) w) = Inr ()
           \<and> py_getattr (heap (snd (login E (PRef a) w))) (PRef a) ''cookie''
               = Inr (PStr ''website_2=None'')"
    if "answer = Inr r" "ok r" "json_loads E (content r) = Inr (PDict kvs)"
       "map_of kvs ''items'' = Some (PList (PDict first # rest))"
       "map_of first ''session_token'' = None" for r kvs first rest
    using that assms(1) by (simp add: eq py_getattr_def)
  from 1 2 3 4 5 6 7 show ?thesis by blast
qed

text \<open>
  The account of the sample world logs in again: accepted with a token, the cookie is
  replaced; rejected with 401, \<^verbatim>\<open>login\<close> raises and the cookie it had stays.
\<close>

theorem login_outcomes_witness:
  "fst (login (sample_env (Inr (ok_response body_login_ok))) (PRef 0) sample_world) = Inr ()
   \<and> py_getattr (heap (snd (login (sample_env (Inr (ok_response body_login_ok)))
                                (PRef 0) sample_world))) (PRef 0) ''cookie''
       = Inr (PStr ''website_2=abc'')
   \<and> fst (login (sample_env (Inr (status_response 401 ''Unauthorized''))) (PRef 0) sample_world)
       = Inl (Exception [PStr ''Unauthorized''])
   \<and> heap (snd (login (sample_env (Inr (status_response 401 ''Unauthorized'')))
                   (PRef 0) sample_world)) = heap sample_world
   \<and> (\<exists>e. fst (login (sample_env (Inr (ok_response body_login_no_items)))
                 (PRef 0) sample_world) = Inl e)"
proof -
  let ?E = "sample_env (Inr (ok_response body_login_ok))"
  let ?F = "sample_env (Inr (status_response 401 ''Unauthorized''))"
  let ?G = "sample_env (Inr (ok_response body_login_no_items))"
  note acct = sample_account(1,2)
  have n: "\<not> ok (status_response 401 ''Unauthorized'')"
    by (simp add: ok_def status_response_sel)
  have s: "\<not> login_shape (PDict [(''items'', PList [])])"
    by simp
  from login_outcomes [OF acct, of ?E, OF sample_env_sel(1)]
  have 1: "fst (login ?E (PRef 0) sample_world) = Inr ()
           \<and> py_getattr (heap (snd (login ?E (PRef 0) sample_world))) (PRef 0) ''cookie''
               = Inr (PStr ''website_2=abc'')"
    by (simp add: sample_env_sel ok_response_sel sample_loads_eqs)
  from login_outcomes [OF acct, of ?F, OF sample_env_sel(1)] n
  have 2: "fst (login ?F (PRef 0) sample_world) = Inl (Exception [PStr ''Unauthorized''])"
    by (simp add: status_response_sel)
  from login_outcomes [OF acct, of ?F, OF sample_env_sel(1)] 2
  have 3: "heap (snd (login ?F (PRef 0) sample_world)) = heap sample_world"
    by blast
  from login_outcomes [OF acct, of ?G, OF sample_env_sel(1)] s
  have 4: "\<exists>e. fst (login ?G (PRef 0) sample_world) = Inl e"
    by (simp add: sample_env_sel ok_response_sel sample_loads_eqs)
  from 1 2 3 4 show ?thesis by blast
qed

text \<open>
  C4 as stated fails when the expected shape is absent in the first item only: a new
  account whose login answer is \<^verbatim>\<open>{"items": [{}]}\<close> is constructed without an error,
  and its cookie is set, to \<^verbatim>\<open>website_2=None\<close>.
\<close>

theorem login_missing_token_counterexample:
  "fst (Dropcam_init (sample_env (Inr (ok_response body_login_no_token)))
          (PStr ''user'') (PStr ''secret'') empty_world) = Inr (PRef 0)
   \<and> heap (snd (Dropcam_init (sample_env (Inr (ok_response body_login_no_token)))
          (PStr ''user'') (PStr ''secret'') empty_world))
     = [DropcamObj (PStr ''user'') (PStr ''secret'') (PStr ''website_2=None'')]"
proof -
  let ?E = "sample_env (Inr (ok_response body_login_no_token))"
  let ?w = "empty_world\<lparr>heap := heap empty_world @ [DropcamObj (PStr ''user'') (PStr ''secret'') PNone]\<rparr>"
  have "login ?E (PRef 0) ?w =
          (Inr (), ?w\<lparr>calls := [build_call ?E ''POST'' LOGIN_PATH
                                   [(''username'', PStr ''user''), (''password'', PStr ''secret'')] PNone],
                      heap := [DropcamObj (PStr ''user'') (PStr ''secret'') (PStr ''website_2=None'')]\<rparr>)"
    by (subst login_eq [of 0 _ "PStr ''user''" "PStr ''secret''" PNone])
       (simp_all add: empty_world_def sample_env_sel ok_response_sel sample_loads_eqs)
  then show ?thesis
    by (simp add: Dropcam_init_def Let_def empty_world_def)
qed

section \<open>Listing the cameras\<close>

lemma Camera_init_dict:
  "is_dict p \<Longrightarrow> Camera_init self p = Inr ([''dropcam'' \<mapsto> self] ++ map_of (dict_items p))"
  by (cases p) (simp_all add: Camera_init_def)

lemma cameras_inner_dicts:
  "list_all is_dict ps \<Longrightarrow>
     cameras_inner self ps cams h =
       Inr (cams @ map PRef [length h ..< length h + length ps], h @ map (camera_of self) ps)"
proof (induction ps arbitrary: cams h)
  case Nil
  then show ?case by simp
next
  case (Cons p ps)
  then have "cameras_inner self ps (cams @ [PRef (length h)]) (h @ [camera_of self p]) =
      Inr ((cams @ [PRef (length h)]) @ map PRef [Suc (length h) ..< Suc (length h) + length ps],
           (h @ [camera_of self p]) @ map (camera_of self) ps)"
    by simp
  moreover have "[length h ..< length h + length (p # ps)] =
      length h # [Suc (length h) ..< Suc (length h) + length ps]"
    by (simp add: upt_rec)
  ultimately show ?case
    using Cons.prems by (simp add: Camera_init_dict camera_of_def)
qed

lemma group_owned:
  "is_group g \<Longrightarrow> py_get g ''owned'' = Inr (PList (owned_of g)) \<and> list_all is_dict (owned_of g)"
  by (cases g) (auto split: option.splits pyval.splits)

lemma cameras_outer_groups:
  "list_all is_group gs \<Longrightarrow>
     cameras_outer self gs cams h =
       Inr (cams @ map PRef [length h ..< length h + length (concat (map owned_of gs))],
            h @ map (camera_of self) (concat (map owned_of gs)))"
proof (induction gs arbitrary: cams h)
  case Nil
  then show ?case by simp
next
  case (Cons g gs)
  from Cons.prems have g: "py_get g ''owned'' = Inr (PList (owned_of g))"
    and d: "list_all is_dict (owned_of g)" and gs: "list_all is_group gs"
    using group_owned by auto
  have split: "[length h ..< length h + (length (owned_of g) + length (concat (map owned_of gs)))] =
        [length h ..< length h + length (owned_of g)]
        @ [length h + length (owned_of g) ..< length h + length (owned_of g) + length (concat (map owned_of gs))]"
    by (metis add.assoc le_add1 upt_add_eq_append)
  show ?case
    using Cons.IH [OF gs] split
    by (simp add: g cameras_inner_dicts [OF d])
qed


lemma cameras_eq:
  assumes "a < length (heap w)" and "heap w ! a = DropcamObj u p cookie"
    and "http E (build_call E ''GET'' CAMERAS_GET_VISIBLE [(''group_cameras'', PBool True)] cookie) = Inr r"
    and "ok r"
    and "json_loads E (content r) = Inr response"
  shows "cameras E (PRef a) w =
     (let w' = w\<lparr>calls := calls w @ [build_call E ''GET'' CAMERAS_GET_VISIBLE
                                          [(''group_cameras'', PBool True)] cookie]\<rparr>
      in case py_get response ''status'' of
           Inl e \<Rightarrow> (Inl e, w')
         | Inr status \<Rightarrow>
             if ne_zero status then
               (case py_get response ''status_detail'' of
                  Inl e \<Rightarrow> (Inl e, w')
                | Inr detail \<Rightarrow> (Inl (Exception [status, detail]), w'))
             else
               (case py_get response ''items'' of
                  Inl e \<Rightarrow> (Inl e, w')
                | Inr items \<Rightarrow>
                    (case py_iter items of
                       Inl e \<Rightarrow> (Inl e, w')
                     | Inr its \<Rightarrow>
                         (case cameras_outer (PRef a) its [] (heap w') of
                            Inl e \<Rightarrow> (Inl e, w')
                          | Inr (cams, h') \<Rightarrow> (Inr cams, w'\<lparr>heap := h'\<rparr>)))))"
  using assms by (simp add: cameras_def class_attr_def py_getattr_def request_eq Let_def)

text \<open>
  Claim C1. For an account holding a cookie, an ok answer to the listing request and a
  body that parses to an object:
  \<^item> when \<^verbatim>\<open>status\<close> is 0 and \<^verbatim>\<open>items\<close> is a list of groups, \<^verbatim>\<open>cameras\<close> returns one new
    \<^verbatim>\<open>Camera\<close> instance per entry of the groups' \<^verbatim>\<open>owned\<close> lists, as many as the lists have
    entries in total, in the order of the payload (group after group, entry after
    entry) and without removing repeated entries; each instance holds the account
    reference and the entry's fields;
  \<^item> when \<^verbatim>\<open>status\<close> is not 0, \<^verbatim>\<open>cameras\<close> raises \<^verbatim>\<open>Exception(status, status_detail)\<close> with
    exactly the two values of the payload.
\<close>

theorem cameras_listing:
  assumes "a < length (heap w)" and "heap w ! a = DropcamObj u p cookie"
    and "http E (build_call E ''GET'' CAMERAS_GET_VISIBLE [(''group_cameras'', PBool True)] cookie) = Inr r"
    and "ok r"
    and "json_loads E (content r) = Inr (PDict kvs)"
  shows "(map_of kvs ''status'' = Some (PInt 0) \<and> map_of kvs ''items'' = Some (PList groups)
          \<and> list_all is_group groups
          \<longrightarrow> fst (cameras E (PRef a) w) =
                Inr (map PRef [length (heap w) ..<
                       length (heap w) + sum_list (map (\<lambda>g. length (owned_of g)) groups)])
              \<and> heap (snd (cameras E (PRef a) w)) =
                  heap w @ map (camera_of (PRef a)) (concat (map owned_of groups)))
       \<and> (py_get (PDict kvs) ''status'' = Inr status \<and> ne_zero status
          \<and> py_get (PDict kvs) ''status_detail'' = Inr detail
          \<longrightarrow> fst (cameras E (PRef a) w) = Inl (Exception [status, detail]))"
proof -
  note eq = cameras_eq [OF assms]
  have len: "length (concat (map owned_of groups)) = sum_list (map (\<lambda>g. length (owned_of g)) groups)"
    by (simp add: length_concat comp_def)
  have a: "fst (cameras E (PRef a) w) =
                Inr (map PRef [length (heap w) ..<
                       length (heap w) + sum_list (map (\<lambda>g. length (owned_of g)) groups)])
              \<and> heap (snd (cameras E (PRef a) w)) =
                  heap w @ map (camera_of (PRef a)) (concat (map owned_of groups))"
    if "map_of kvs ''status'' = Some (PInt 0)" "map_of kvs ''items'' = Some (PList groups)"
       "list_all is_group groups"
    using that(1,2) by (simp add: eq Let_def cameras_outer_groups [OF that(3)] len)
  have b: "fst (cameras E (PRef a) w) = Inl (Exception [status, detail])"
    if "py_get (PDict kvs) ''status'' = Inr status" "ne_zero status"
       "py_get (PDict kvs) ''status_detail'' = Inr detail"
    using that by (simp add: eq Let_def del: py_get.simps)
  from a b show ?thesis by blast
qed

text \<open>
  Three groups owning two, no and one camera, the last one repeating the first: three
  instances, at the next three heap indices, in payload order. A listing with status
  7 raises with the status and its detail.
\<close>



theorem cameras_listing_witness:
  "fst (cameras (sample_env (Inr (ok_response body_listing))) (PRef 0) sample_world)
     = Inr [PRef 3, PRef 4, PRef 5]
   \<and> heap (snd (cameras (sample_env (Inr (ok_response body_listing))) (PRef 0) sample_world))
     = heap sample_world
       @ [camera_of (PRef 0) (PDict [(''uuid'', PStr ''c0''), (''title'', PStr ''Hall'')]),
          camera_of (PRef 0) (PDict [(''uuid'', PStr ''c1''), (''title'', PStr ''Porch'')]),
          camera_of (PRef 0) (PDict [(''uuid'', PStr ''c0''), (''title'', PStr ''Hall'')])]
   \<and> fst (cameras (sample_env (Inr (ok_response body_listing_denied))) (PRef 0) sample_world)
     = Inl (Exception [PInt 7, PStr ''denied''])"
proof -
  let ?E = "sample_env (Inr (ok_response body_listing))"
  let ?F = "sample_env (Inr (ok_response body_listing_denied))"
  note acct = sample_account(1,2)
  have j: "json_loads ?E (content (ok_response body_listing)) = Inr (PDict
     [(''status'', PInt 0),
      (''items'', PList
         [PDict [(''owned'', PList [PDict [(''uuid'', PStr ''c0''), (''title'', PStr ''Hall'')],
                                    PDict [(''uuid'', PStr ''c1''), (''title'', PStr ''Porch'')]])],
          PDict [(''owned'', PList [])],
          PDict [(''owned'', PList [PDict [(''uuid'', PStr ''c0''), (''title'', PStr ''Hall'')]])]])])"
    and j': "json_loads ?F (content (ok_response body_listing_denied)) =
        Inr (PDict [(''status'', PInt 7), (''status_detail'', PStr ''denied'')])"
    by (simp_all add: sample_env_sel ok_response_sel sample_loads_eqs sample_listing_def)
  show ?thesis
    using cameras_listing [OF acct sample_env_sel(1) ok_response_sel(3) j, of
            "[PDict [(''owned'', PList [PDict [(''uuid'', PStr ''c0''), (''title'', PStr ''Hall'')],
                                        PDict [(''uuid'', PStr ''c1''), (''title'', PStr ''Porch'')]])],
              PDict [(''owned'', PList [])],
              PDict [(''owned'', PList [PDict [(''uuid'', PStr ''c0''), (''title'', PStr ''Hall'')]])]]"]
          cameras_listing [OF acct sample_env_sel(1) ok_response_sel(3) j',
            of _ "PInt 7" "PStr ''denied''"]
    by (simp add: sample_account upt_rec)
qed

end
